theory Spec2Isabelle
  imports Main "HOL-Library.Sublist"
begin

section \<open>Data model (services/oauth.ts)\<close>

text \<open>
  The interface \<open>OAuthTokens\<close>. JavaScript numbers are modelled as integers (epoch
  milliseconds and lifetimes in seconds); the two computed fields are optional, as in the
  interface.
\<close>

record OAuthTokens =
  access_token :: string
  refresh_token :: string
  token_type :: string
  expires_in :: int
  refresh_expires_in :: int
  access_token_expires_at :: "int option"
  refresh_token_expires_at :: "int option"

record OAuthConfig =
  clientId :: string
  clientSecret :: string
  redirectUri :: string

text \<open>
  The form body posted to the token URL: \<open>grant_type=authorization_code\<close> with client id,
  client secret, redirect URI and code, or \<open>grant_type=refresh_token\<close> with client id,
  client secret and refresh token.
\<close>

datatype grant =
    AuthorizationCodeGrant string string string string
  | RefreshTokenGrant string string string

section \<open>The token file\<close>

text \<open>
  What \<open>~/.tiny-mcp/tokens.json\<close> holds: text on which \<open>JSON.parse\<close> throws or yields
  \<open>null\<close> (\<open>Unparseable\<close>), or the JSON of a token object. The configuration directory
  may be missing; a file exists only inside the directory.
\<close>

datatype file_content = Unparseable | TokenRecord OAuthTokens

datatype fs = NoConfigDir | ConfigDir "file_content option"

section \<open>Errors\<close>

text \<open>
  A request configuration of the HTTP client: method, URL, body, the \<open>Authorization\<close>
  header and the \<open>_retry\<close> mark the response interceptor sets.
\<close>

record request_config =
  http_method :: string
  url :: string
  body :: string
  authorization :: "string option"
  retry :: bool

text \<open>
  The body of an error response as \<open>handleApiError\<close> reads it: the fields \<open>message\<close>,
  \<open>error\<close>, the messages of \<open>errors\<close>, and its \<open>JSON.stringify\<close> text.
\<close>

record resp_data =
  data_message :: "string option"
  data_error :: "string option"
  data_errors :: "string list option"
  data_json :: string

text \<open>
  One constructor for each error the code raises:
  \<^item> \<open>NotAuthenticated\<close>: \<open>new Error("Nao autenticado. Execute 'tiny-mcp-auth' para fazer login OAuth.")\<close>
  \<^item> \<open>SessionExpired\<close>: \<open>new Error("Sessao expirada. Execute 'tiny-mcp-auth' para fazer login novamente.")\<close>
  \<^item> \<open>RefreshFailed\<close>: \<open>new Error("Falha ao renovar token. Execute 'tiny-mcp-auth' para fazer login novamente.")\<close>
  \<^item> \<open>OAuthConfigMissing\<close>: \<open>new Error("Configuracao OAuth nao encontrada. Defina TINY_CLIENT_ID e TINY_CLIENT_SECRET.")\<close>
  \<^item> \<open>AuthorizationDenied m\<close>: \<open>new Error(errorDescription || error)\<close> in the callback handler
  \<^item> \<open>InvalidCodeOrState\<close>: \<open>new Error("Invalid authorization code or state")\<close>
  \<^item> \<open>TokenEndpointError m\<close>: the rejection of \<open>axios.post\<close> to the token URL, with
    its message; it reaches the callback handler only, never \<open>handleApiError\<close>
  \<^item> \<open>AxiosError config response code message\<close>: the rejection of an API request, with
    the response (status and body, the body possibly empty) when the server answered.
  Accented letters of the messages are written without accent.
\<close>

datatype error =
    NotAuthenticated
  | SessionExpired
  | RefreshFailed
  | OAuthConfigMissing
  | AuthorizationDenied string
  | InvalidCodeOrState
  | TokenEndpointError string
  | AxiosError request_config "(nat \<times> resp_data option) option" string string

fun message :: "error \<Rightarrow> string" where
  "message NotAuthenticated = ''Nao autenticado. Execute 'tiny-mcp-auth' para fazer login OAuth.''"
| "message SessionExpired = ''Sessao expirada. Execute 'tiny-mcp-auth' para fazer login novamente.''"
| "message RefreshFailed = ''Falha ao renovar token. Execute 'tiny-mcp-auth' para fazer login novamente.''"
| "message OAuthConfigMissing = ''Configuracao OAuth nao encontrada. Defina TINY_CLIENT_ID e TINY_CLIENT_SECRET.''"
| "message (AuthorizationDenied m) = m"
| "message InvalidCodeOrState = ''Invalid authorization code or state''"
| "message (TokenEndpointError m) = m"
| "message (AxiosError c r k m) = m"

text \<open>
  The error taxonomy of the specification (section 7), assigned to the errors above:
  a session is expired when the refresh token is expired or when the refresh attempt
  failed; an exchange error is a rejected code or refresh exchange, a state mismatch or a
  denied consent; a remote-API error is a call that reached the API and received a
  response that is not a success, whatever its status; a missing response is a timeout
  or a network error.
\<close>

datatype category =
    ConfigurationError
  | NotAuthenticatedError
  | SessionExpiredError
  | AuthExchangeError
  | TimeoutError
  | RemoteApiError
  | NetworkError

fun category_of :: "error \<Rightarrow> category" where
  "category_of NotAuthenticated = NotAuthenticatedError"
| "category_of SessionExpired = SessionExpiredError"
| "category_of RefreshFailed = SessionExpiredError"
| "category_of OAuthConfigMissing = ConfigurationError"
| "category_of (AuthorizationDenied m) = AuthExchangeError"
| "category_of InvalidCodeOrState = AuthExchangeError"
| "category_of (TokenEndpointError m) = AuthExchangeError"
| "category_of (AxiosError c (Some (s, d)) k m) = RemoteApiError"
| "category_of (AxiosError c None k m) =
     (if k = ''ECONNABORTED'' then TimeoutError else NetworkError)"

section \<open>The environment and the state of the process\<close>

text \<open>
  What the program does not decide: the value of the clock at the \<open>n\<close>-th point where
  the program consults it, the answer
  of the authorization server to the \<open>n\<close>-th POST to the token URL (\<open>Inl\<close> with the
  message of the error when \<open>axios.post\<close> rejects), and the outcome of the \<open>n\<close>-th request sent to the ERP API:
  a response with its status and body, or no response, with the code and the message of
  the failure.
\<close>

datatype dispatch_result =
    Responded nat "resp_data option"
  | NoResponse string string

record env =
  date_now :: "nat \<Rightarrow> int"
  token_endpoint :: "nat \<Rightarrow> grant \<Rightarrow> string + OAuthTokens"
  erp_api :: "nat \<Rightarrow> request_config \<Rightarrow> dispatch_result"

text \<open>
  The state: the file system, the number of clock points passed so far, and the logs of
  the POSTs to the token URL and of the requests sent to the API. A clock point is passed
  by \<open>saveTokens\<close> and before each of the two expiry checks of \<open>getValidAccessToken\<close>.
\<close>

record world =
  files :: fs
  clock_point :: nat
  token_posts :: "grant list"
  api_sends :: "request_config list"

definition Date_now :: "env \<Rightarrow> world \<Rightarrow> int \<times> world" where
  "Date_now e w = (date_now e (clock_point w), w\<lparr>clock_point := Suc (clock_point w)\<rparr>)"

section \<open>Token store (services/oauth.ts)\<close>

text \<open>\<open>getTokenFilePath\<close> creates the configuration directory when it is missing.\<close>

definition getTokenFilePath :: "world \<Rightarrow> world" where
  "getTokenFilePath w =
     (case files w of NoConfigDir \<Rightarrow> w\<lparr>files := ConfigDir None\<rparr> | ConfigDir f \<Rightarrow> w)"

definition saveTokens :: "env \<Rightarrow> OAuthTokens \<Rightarrow> world \<Rightarrow> OAuthTokens \<times> world" where
  "saveTokens e tokens w =
     (let w1 = getTokenFilePath w;
          (now, w2) = Date_now e w1;
          tokens' = tokens\<lparr>
            access_token_expires_at := Some (now + expires_in tokens * 1000),
            refresh_token_expires_at := Some (now + refresh_expires_in tokens * 1000)\<rparr>
      in (tokens', w2\<lparr>files := ConfigDir (Some (TokenRecord tokens'))\<rparr>))"

definition loadTokens :: "world \<Rightarrow> OAuthTokens option \<times> world" where
  "loadTokens w =
     (let w1 = getTokenFilePath w
      in case files w1 of
           ConfigDir (Some (TokenRecord tokens)) \<Rightarrow> (Some tokens, w1)
         | ConfigDir (Some Unparseable) \<Rightarrow> (None, w1)
         | ConfigDir None \<Rightarrow> (None, w1)
         | NoConfigDir \<Rightarrow> (None, w1))"

definition clearTokens :: "world \<Rightarrow> world" where
  "clearTokens w =
     (let w1 = getTokenFilePath w
      in case files w1 of
           ConfigDir (Some f) \<Rightarrow> w1\<lparr>files := ConfigDir None\<rparr>
         | ConfigDir None \<Rightarrow> w1
         | NoConfigDir \<Rightarrow> w1)"

section \<open>Token validity policy (services/oauth.ts)\<close>

text \<open>
  \<open>!tokens.access_token_expires_at\<close> holds when the field is missing and when it is
  \<open>0\<close>. The second argument is the value of \<open>Date.now()\<close>, which the source
  evaluates only when the field is present.
\<close>

definition bufferTime :: int where
  "bufferTime = 5 * 60 * 1000"

definition isAccessTokenExpired :: "OAuthTokens \<Rightarrow> int \<Rightarrow> bool" where
  "isAccessTokenExpired tokens now =
     (case access_token_expires_at tokens of
        None \<Rightarrow> True
      | Some at \<Rightarrow> if at = 0 then True else now \<ge> at - bufferTime)"

definition isRefreshTokenExpired :: "OAuthTokens \<Rightarrow> int \<Rightarrow> bool" where
  "isRefreshTokenExpired tokens now =
     (case refresh_token_expires_at tokens of
        None \<Rightarrow> True
      | Some at \<Rightarrow> if at = 0 then True else now \<ge> at)"

section \<open>OAuth authenticator (services/oauth.ts)\<close>

definition exchangeCodeForTokens ::
    "env \<Rightarrow> string \<Rightarrow> OAuthConfig \<Rightarrow> world \<Rightarrow> (error + OAuthTokens) \<times> world" where
  "exchangeCodeForTokens e code config w =
     (let params = AuthorizationCodeGrant (clientId config) (clientSecret config)
                     (redirectUri config) code;
          w1 = w\<lparr>token_posts := token_posts w @ [params]\<rparr>
      in case token_endpoint e (length (token_posts w)) params of
           Inl m \<Rightarrow> (Inl (TokenEndpointError m), w1)
         | Inr tokens \<Rightarrow>
             (case saveTokens e tokens w1 of (tokens', w2) \<Rightarrow> (Inr tokens', w2)))"

definition refreshAccessToken ::
    "env \<Rightarrow> string \<Rightarrow> OAuthConfig \<Rightarrow> world \<Rightarrow> (error + OAuthTokens) \<times> world" where
  "refreshAccessToken e refreshToken config w =
     (let params = RefreshTokenGrant (clientId config) (clientSecret config) refreshToken;
          w1 = w\<lparr>token_posts := token_posts w @ [params]\<rparr>
      in case token_endpoint e (length (token_posts w)) params of
           Inl m \<Rightarrow> (Inl (TokenEndpointError m), w1)
         | Inr tokens \<Rightarrow>
             (case saveTokens e tokens w1 of (tokens', w2) \<Rightarrow> (Inr tokens', w2)))"

definition getValidAccessToken ::
    "env \<Rightarrow> OAuthConfig \<Rightarrow> world \<Rightarrow> (error + string) \<times> world" where
  "getValidAccessToken e config w =
     (case loadTokens w of
        (None, w1) \<Rightarrow> (Inl NotAuthenticated, w1)
      | (Some tokens, w1) \<Rightarrow>
          (case Date_now e w1 of (now1, w2) \<Rightarrow>
             if isRefreshTokenExpired tokens now1 then (Inl SessionExpired, clearTokens w2)
             else
               (case Date_now e w2 of (now2, w3) \<Rightarrow>
                  if isAccessTokenExpired tokens now2 then
                    (case refreshAccessToken e (refresh_token tokens) config w3 of
                       (Inr newTokens, w4) \<Rightarrow> (Inr (access_token newTokens), w4)
                     | (Inl err, w4) \<Rightarrow> (Inl RefreshFailed, clearTokens w4))
                  else (Inr (access_token tokens), w3))))"

section \<open>Interactive login: the callback handler (services/oauth.ts)\<close>

text \<open>
  The parsed URL of a request to the local listener: the path and the query parameters
  \<open>code\<close>, \<open>state\<close>, \<open>error\<close> and \<open>error_description\<close> (\<open>None\<close> when
  \<open>searchParams.get\<close> returns \<open>null\<close>).
\<close>

record callback_url =
  pathname :: string
  param_code :: "string option"
  param_state :: "string option"
  param_error :: "string option"
  param_error_description :: "string option"

text \<open>
  One login attempt: the \<open>state\<close> generated for it, the promise (\<open>None\<close> while
  pending) and whether the listener is still open.
\<close>

record login =
  generated_state :: string
  promise :: "(error + OAuthTokens) option"
  listening :: bool

definition startCallbackServer :: "string \<Rightarrow> login" where
  "startCallbackServer st = \<lparr>generated_state = st, promise = None, listening = True\<rparr>"

text \<open>A promise is settled once: a later \<open>resolve\<close> or \<open>reject\<close> has no effect.\<close>

definition settle :: "error + OAuthTokens \<Rightarrow> login \<Rightarrow> login" where
  "settle r l = (case promise l of None \<Rightarrow> l\<lparr>promise := Some r\<rparr> | Some x \<Rightarrow> l)"

definition server_close :: "login \<Rightarrow> login" where
  "server_close l = l\<lparr>listening := False\<rparr>"

text \<open>A string is truthy when it is present and not empty.\<close>

fun truthy :: "string option \<Rightarrow> bool" where
  "truthy None = False"
| "truthy (Some s) = (s \<noteq> [])"

text \<open>
  The request handler of the listener; \<open>None\<close> is a request without URL. It returns the
  HTTP status it writes, the login attempt and the state of the process.
\<close>

definition callback_handler ::
    "env \<Rightarrow> OAuthConfig \<Rightarrow> callback_url option \<Rightarrow> login \<Rightarrow> world \<Rightarrow> nat \<times> login \<times> world" where
  "callback_handler e config req l w =
     (case req of
        None \<Rightarrow> (400, l, w)
      | Some u \<Rightarrow>
          if pathname u = ''/callback'' then
            if truthy (param_error u) then
              (400,
               settle (Inl (AuthorizationDenied
                 (if truthy (param_error_description u)
                  then case_option [] id (param_error_description u)
                  else case_option [] id (param_error u)))) (server_close l),
               w)
            else if \<not> truthy (param_code u) \<or> param_state u \<noteq> Some (generated_state l) then
              (400, settle (Inl InvalidCodeOrState) (server_close l), w)
            else
              (case exchangeCodeForTokens e (case_option [] id (param_code u)) config w of
                 (Inr tokens, w1) \<Rightarrow> (200, settle (Inr tokens) (server_close l), w1)
               | (Inl err, w1) \<Rightarrow> (500, settle (Inl err) (server_close l), w1))
          else (404, l, w))"

section \<open>Authenticated request pipeline (services/api-client.ts)\<close>

text \<open>
  Sending a request: the request is logged and the environment gives the outcome. A
  status from 200 to 299 fulfils the promise with the response; any other status and a
  missing response reject it with an \<open>AxiosError\<close> that carries the configuration of
  the request, the code of the HTTP client (none, written \<open>[]\<close>, for a status outside
  400 to 599) and its message.
\<close>

fun digit_chars :: "nat \<Rightarrow> string" where
  "digit_chars n =
     (if n < 10 then [char_of (48 + n)]
      else digit_chars (n div 10) @ [char_of (48 + n mod 10)])"

definition status_message :: "nat \<Rightarrow> string" where
  "status_message status = ''Request failed with status code '' @ digit_chars status"

definition settle_error :: "request_config \<Rightarrow> dispatch_result \<Rightarrow> error" where
  "settle_error cfg r =
     (case r of
        Responded status d \<Rightarrow>
          AxiosError cfg (Some (status, d))
            (if 400 \<le> status \<and> status < 500 then ''ERR_BAD_REQUEST''
             else if 500 \<le> status \<and> status < 600 then ''ERR_BAD_RESPONSE''
             else [])
            (status_message status)
      | NoResponse k m \<Rightarrow> AxiosError cfg None k m)"

definition dispatch ::
    "env \<Rightarrow> request_config \<Rightarrow> world \<Rightarrow> (error + nat \<times> resp_data option) \<times> world" where
  "dispatch e cfg w =
     (let r = erp_api e (length (api_sends w)) cfg;
          w1 = w\<lparr>api_sends := api_sends w @ [cfg]\<rparr>
      in case r of
           Responded status d \<Rightarrow>
             if 200 \<le> status \<and> status < 300 then (Inr (status, d), w1)
             else (Inl (settle_error cfg r), w1)
         | NoResponse k m \<Rightarrow> (Inl (settle_error cfg r), w1))"

text \<open>
  The client with its two interceptors. \<open>request\<close> runs the request interceptor
  (which fails without OAuth configuration and otherwise sets the header from
  \<open>getValidAccessToken\<close>) and sends the request; every rejection, also one raised by the
  request interceptor, reaches the error handler of the response interceptor,
  \<open>response_rejected\<close>. The handler re-issues a request through \<open>request\<close>, and the
  \<open>_retry\<close> mark travels with the configuration. The rejection of the re-issued request
  is not caught by the handler's \<open>try\<close> block, which returns the promise without awaiting it.
\<close>

fun retry_of :: "error \<Rightarrow> bool" where
  "retry_of (AxiosError cfg r k m) = retry cfg"
| "retry_of err = True"

function request ::
    "env \<Rightarrow> OAuthConfig option \<Rightarrow> request_config \<Rightarrow> world
       \<Rightarrow> (error + nat \<times> resp_data option) \<times> world"
  and response_rejected ::
    "env \<Rightarrow> OAuthConfig option \<Rightarrow> error \<Rightarrow> world
       \<Rightarrow> (error + nat \<times> resp_data option) \<times> world"
where
  "request e oauthConfig cfg w =
     (case oauthConfig of
        None \<Rightarrow> response_rejected e oauthConfig OAuthConfigMissing w
      | Some c \<Rightarrow>
          (case getValidAccessToken e c w of
             (Inl err, w1) \<Rightarrow> response_rejected e oauthConfig err w1
           | (Inr accessToken, w1) \<Rightarrow>
               (case dispatch e (cfg\<lparr>authorization := Some (''Bearer '' @ accessToken)\<rparr>) w1 of
                  (Inr response, w2) \<Rightarrow> (Inr response, w2)
                | (Inl err, w2) \<Rightarrow> response_rejected e oauthConfig err w2)))"
| "response_rejected e oauthConfig err w =
     (case err of
        AxiosError originalRequest (Some (status, d)) k m \<Rightarrow>
          if status = 401 then
            (case oauthConfig of
               Some c \<Rightarrow>
                 if \<not> retry originalRequest then
                   (case getValidAccessToken e c w of
                      (Inr accessToken, w1) \<Rightarrow>
                        request e oauthConfig
                          (originalRequest\<lparr>retry := True,
                             authorization := Some (''Bearer '' @ accessToken)\<rparr>) w1
                    | (Inl err', w1) \<Rightarrow> (Inl SessionExpired, w1))
                 else (Inl err, w)
             | None \<Rightarrow> (Inl err, w))
          else (Inl err, w)
      | _ \<Rightarrow> (Inl err, w))"
  by pat_completeness auto
termination
  apply (relation "measure (\<lambda>x. case x of
            Inl (e, oc, cfg, w) \<Rightarrow> (if retry cfg then 1 else 3)
          | Inr (e, oc, err, w) \<Rightarrow> (if retry_of err then 0 else 2))")
      apply simp
     apply simp
    apply (auto simp add: getValidAccessToken_def dispatch_def settle_error_def Let_def
             split: prod.splits option.splits sum.splits dispatch_result.splits if_splits)
  done

definition isAuthenticated :: "world \<Rightarrow> bool \<times> world" where
  "isAuthenticated w = (case loadTokens w of (tokens, w1) \<Rightarrow> (tokens \<noteq> None, w1))"

subsection \<open>\<open>handleApiError\<close>\<close>

text \<open>
  The user-facing message of an error. \<open>cross\<close> stands for the cross mark that opens
  every message. The last branch of the source, for a thrown value that is not an
  \<open>Error\<close>, has no counterpart among the errors above.
\<close>

definition cross :: string where
  "cross = ''(x) ''"

fun str_includes :: "string \<Rightarrow> string \<Rightarrow> bool" where
  "str_includes [] needle = (needle = [])"
| "str_includes (c # cs) needle = (prefix needle (c # cs) \<or> str_includes cs needle)"

fun join :: "string \<Rightarrow> string list \<Rightarrow> string" where
  "join sep [] = []"
| "join sep [x] = x"
| "join sep (x # y # ys) = x @ sep @ join sep (y # ys)"

definition errorMsg :: "resp_data option \<Rightarrow> string" where
  "errorMsg d =
     (case d of
        None \<Rightarrow> ''Erro desconhecido''
      | Some r \<Rightarrow>
          if truthy (data_message r) then case_option [] id (data_message r)
          else if truthy (data_error r) then case_option [] id (data_error r)
          else (case data_errors r of
                  Some (x # xs) \<Rightarrow> join ''; '' (x # xs)
                | Some [] \<Rightarrow> data_json r
                | None \<Rightarrow> data_json r))"

text \<open>The \<open>switch\<close> on the status of an error response.\<close>

definition status_text :: "nat \<Rightarrow> resp_data option \<Rightarrow> string" where
  "status_text status d =
     (if status = 400 then cross @ ''Requisicao invalida: '' @ errorMsg d
      else if status = 401 then
        cross @ ''Nao autorizado. Execute 'tiny-mcp-auth' para autenticar.''
      else if status = 403 then cross @ ''Acesso negado: '' @ errorMsg d
      else if status = 404 then cross @ ''Recurso nao encontrado''
      else if status = 429 then
        cross @ ''Limite de requisicoes excedido. Aguarde antes de tentar novamente.''
      else if status = 500 then cross @ ''Erro interno do servidor Tiny''
      else if status = 503 then cross @ ''Servico temporariamente indisponivel''
      else cross @ ''Erro '' @ digit_chars status @ '': '' @ errorMsg d)"

definition handleApiError :: "error \<Rightarrow> string" where
  "handleApiError err =
     (case err of
        AxiosError c r k m \<Rightarrow>
          if str_includes m ''Sessao expirada'' \<or> str_includes m ''Nao autenticado''
          then cross @ m
          else
            (case r of
               Some (status, d) \<Rightarrow> status_text status d
             | None \<Rightarrow>
                 if k = ''ECONNABORTED'' then
                   cross @ ''Timeout: a requisicao demorou muito para responder''
                 else if k = ''ENOTFOUND'' \<or> k = ''ECONNREFUSED'' then
                   cross @ ''Nao foi possivel conectar ao servidor Tiny''
                 else cross @ ''Erro de conexao: '' @ m)
      | _ \<Rightarrow> cross @ message err)"

section \<open>Example data\<close>

text \<open>
  The token pair of the end-to-end example, saved at the instant \<open>t0\<close>; the answer of the
  authorization server to a refresh; a client configuration; a state of the process that
  holds a given pair in the token file; an environment with a fixed clock, whose
  authorization server gives a fixed answer or rejects every grant.
\<close>

definition t0 :: int where
  "t0 = 1700000000000"

definition tokens_A1 :: OAuthTokens where
  "tokens_A1 =
     \<lparr>access_token = ''A1'', refresh_token = ''R1'', token_type = ''Bearer'',
      expires_in = 14400, refresh_expires_in = 86400,
      access_token_expires_at = Some (t0 + 14400 * 1000),
      refresh_token_expires_at = Some (t0 + 86400 * 1000)\<rparr>"

definition tokens_A2 :: OAuthTokens where
  "tokens_A2 =
     \<lparr>access_token = ''A2'', refresh_token = ''R2'', token_type = ''Bearer'',
      expires_in = 14400, refresh_expires_in = 86400,
      access_token_expires_at = None, refresh_token_expires_at = None\<rparr>"

definition config0 :: OAuthConfig where
  "config0 = \<lparr>clientId = ''id'', clientSecret = ''secret'',
              redirectUri = ''http://localhost:8080/callback''\<rparr>"

definition stored :: "OAuthTokens \<Rightarrow> world" where
  "stored tokens =
     \<lparr>files = ConfigDir (Some (TokenRecord tokens)), clock_point = 0,
      token_posts = [], api_sends = []\<rparr>"

definition env_at :: "int \<Rightarrow> OAuthTokens option \<Rightarrow> (nat \<Rightarrow> dispatch_result) \<Rightarrow> env" where
  "env_at now answer api =
     \<lparr>date_now = (\<lambda>n. now),
      token_endpoint =
        (\<lambda>n g. case answer of
                 None \<Rightarrow> Inl ''Request failed with status code 400''
               | Some tokens \<Rightarrow> Inr tokens),
      erp_api = (\<lambda>n cfg. api n)\<rparr>"

definition get_products :: request_config where
  "get_products =
     \<lparr>http_method = ''get'', url = ''/produtos'', body = [], authorization = None, retry = False\<rparr>"

definition always_401 :: "nat \<Rightarrow> dispatch_result" where
  "always_401 n = Responded 401 None"

section \<open>Properties of the token store and of the validity policy\<close>

declare request.simps [simp del] response_rejected.simps [simp del] digit_chars.simps [simp del]

lemma getTokenFilePath_ConfigDir [simp]:
  "files w = ConfigDir f \<Longrightarrow> getTokenFilePath w = w"
  by (simp add: getTokenFilePath_def)

lemma loadTokens_stored [simp]:
  "files w = ConfigDir (Some (TokenRecord tokens)) \<Longrightarrow> loadTokens w = (Some tokens, w)"
  by (simp add: loadTokens_def)

text \<open>
  C4: \<open>save\<close> followed by \<open>load\<close> returns the saved pair with both expiry instants set to
  the clock read by \<open>save\<close> plus the declared lifetimes in milliseconds, whatever the
  expiry fields of the pair and whatever the token file held before; the file then holds
  exactly that record.
\<close>

theorem saveTokens_loadTokens:
  "fst (loadTokens (snd (saveTokens e tokens w))) =
     Some (tokens\<lparr>
       access_token_expires_at := Some (date_now e (clock_point w) + expires_in tokens * 1000),
       refresh_token_expires_at :=
         Some (date_now e (clock_point w) + refresh_expires_in tokens * 1000)\<rparr>)
   \<and> files (snd (saveTokens e tokens w)) =
       ConfigDir (Some (TokenRecord (tokens\<lparr>
         access_token_expires_at := Some (date_now e (clock_point w) + expires_in tokens * 1000),
         refresh_token_expires_at :=
           Some (date_now e (clock_point w) + refresh_expires_in tokens * 1000)\<rparr>)))"
  by (simp add: loadTokens_def saveTokens_def getTokenFilePath_def Date_now_def Let_def
        split: fs.splits)

text \<open>
  For any integer \<open>now\<close>, the two predicates in closed form: a stored expiry instant of
  \<open>0\<close> counts as missing.
\<close>

lemma isAccessTokenExpired_iff:
  "isAccessTokenExpired tokens now =
     (case access_token_expires_at tokens of
        None \<Rightarrow> True
      | Some at \<Rightarrow> at = 0 \<or> at - 5 * 60 * 1000 \<le> now)"
  by (auto simp add: isAccessTokenExpired_def bufferTime_def split: option.splits)

lemma isRefreshTokenExpired_iff:
  "isRefreshTokenExpired tokens now =
     (case refresh_token_expires_at tokens of
        None \<Rightarrow> True
      | Some at \<Rightarrow> at = 0 \<or> at \<le> now)"
  by (auto simp add: isRefreshTokenExpired_def split: option.splits)

text \<open>
  C5: at an instant \<open>now\<close> of the epoch clock (not negative), \<open>isAccessTokenExpired\<close> is
  true exactly when the pair has no access-token expiry instant or \<open>now\<close> is at least the
  expiry instant minus five minutes; it is true four minutes before the expiry instant
  and false six minutes before it.
\<close>

theorem isAccessTokenExpired_buffer:
  assumes "0 \<le> now"
  shows "isAccessTokenExpired tokens now =
           (access_token_expires_at tokens = None \<or>
            (\<exists>at. access_token_expires_at tokens = Some at \<and> now \<ge> at - 5 * 60 * 1000))
         \<and> (access_token_expires_at tokens = Some (now + 4 * 60 * 1000)
              \<longrightarrow> isAccessTokenExpired tokens now)
         \<and> (access_token_expires_at tokens = Some (now + 6 * 60 * 1000)
              \<longrightarrow> \<not> isAccessTokenExpired tokens now)"
  using assms
  by (auto simp add: isAccessTokenExpired_def bufferTime_def split: option.splits)

theorem isAccessTokenExpired_buffer_witness:
  "(0::int) \<le> t0
   \<and> isAccessTokenExpired (tokens_A1\<lparr>access_token_expires_at := Some (t0 + 4 * 60 * 1000)\<rparr>) t0
   \<and> \<not> isAccessTokenExpired (tokens_A1\<lparr>access_token_expires_at := Some (t0 + 6 * 60 * 1000)\<rparr>) t0"
proof -
  have h: "(0::int) \<le> t0" by (simp add: t0_def)
  show ?thesis
    using h
      isAccessTokenExpired_buffer [OF h,
        of "tokens_A1\<lparr>access_token_expires_at := Some (t0 + 4 * 60 * 1000)\<rparr>"]
      isAccessTokenExpired_buffer [OF h,
        of "tokens_A1\<lparr>access_token_expires_at := Some (t0 + 6 * 60 * 1000)\<rparr>"]
    by simp
qed

text \<open>
  C6: at an instant \<open>now\<close> of the epoch clock (not negative), \<open>isRefreshTokenExpired\<close> is
  true exactly when the pair has no refresh-token expiry instant or \<open>now\<close> is at least the
  expiry instant, with no buffer: it is true at the expiry instant and false one
  millisecond before it; a pair without expiry metadata is expired for both predicates.
\<close>

theorem isRefreshTokenExpired_exact:
  assumes "0 \<le> now"
  shows "isRefreshTokenExpired tokens now =
           (refresh_token_expires_at tokens = None \<or>
            (\<exists>at. refresh_token_expires_at tokens = Some at \<and> now \<ge> at))
         \<and> (refresh_token_expires_at tokens = Some now \<longrightarrow> isRefreshTokenExpired tokens now)
         \<and> (refresh_token_expires_at tokens = Some (now + 1)
              \<longrightarrow> \<not> isRefreshTokenExpired tokens now)
         \<and> (refresh_token_expires_at tokens = None \<longrightarrow> isRefreshTokenExpired tokens now)
         \<and> (access_token_expires_at tokens = None \<longrightarrow> isAccessTokenExpired tokens now)"
  using assms
  by (auto simp add: isRefreshTokenExpired_def isAccessTokenExpired_def split: option.splits)

theorem isRefreshTokenExpired_exact_witness:
  "(0::int) \<le> t0
   \<and> isRefreshTokenExpired (tokens_A1\<lparr>refresh_token_expires_at := Some t0\<rparr>) t0
   \<and> \<not> isRefreshTokenExpired (tokens_A1\<lparr>refresh_token_expires_at := Some (t0 + 1)\<rparr>) t0
   \<and> isRefreshTokenExpired tokens_A2 t0
   \<and> isAccessTokenExpired tokens_A2 t0"
proof -
  have h: "(0::int) \<le> t0" by (simp add: t0_def)
  show ?thesis
    using h
      isRefreshTokenExpired_exact [OF h, of "tokens_A1\<lparr>refresh_token_expires_at := Some t0\<rparr>"]
      isRefreshTokenExpired_exact [OF h,
        of "tokens_A1\<lparr>refresh_token_expires_at := Some (t0 + 1)\<rparr>"]
      isRefreshTokenExpired_exact [OF h, of tokens_A2]
    by (simp add: tokens_A2_def)
qed

section \<open>Properties of \<open>getValidAccessToken\<close>\<close>

text \<open>
  C3: when the stored pair's refresh token is expired at the clock point,
  \<open>getValidAccessToken\<close> fails with the session-expired error, removes the token file
  and posts nothing to the token URL; a following \<open>load\<close> returns nothing.
\<close>

theorem getValidAccessToken_refresh_expired:
  assumes "files w = ConfigDir (Some (TokenRecord tokens))"
      and "isRefreshTokenExpired tokens (date_now e (clock_point w))"
  shows "getValidAccessToken e config w =
           (Inl SessionExpired, w\<lparr>files := ConfigDir None, clock_point := Suc (clock_point w)\<rparr>)
         \<and> category_of SessionExpired = SessionExpiredError
         \<and> fst (loadTokens (snd (getValidAccessToken e config w))) = None
         \<and> token_posts (snd (getValidAccessToken e config w)) = token_posts w"
  using assms
  by (simp add: getValidAccessToken_def Date_now_def clearTokens_def getTokenFilePath_def
        loadTokens_def)

theorem getValidAccessToken_refresh_expired_witness:
  "isRefreshTokenExpired tokens_A1 (t0 + 86400 * 1000)
   \<and> getValidAccessToken (env_at (t0 + 86400 * 1000) None (\<lambda>n. NoResponse [] [])) config0
         (stored tokens_A1) =
       (Inl SessionExpired,
        \<lparr>files = ConfigDir None, clock_point = 1, token_posts = [], api_sends = []\<rparr>)
   \<and> fst (loadTokens (snd (getValidAccessToken
         (env_at (t0 + 86400 * 1000) None (\<lambda>n. NoResponse [] [])) config0 (stored tokens_A1)))) = None"
proof -
  have h1: "files (stored tokens_A1) = ConfigDir (Some (TokenRecord tokens_A1))"
    by (simp add: stored_def)
  have h2: "isRefreshTokenExpired tokens_A1
              (date_now (env_at (t0 + 86400 * 1000) None (\<lambda>n. NoResponse [] []))
                 (clock_point (stored tokens_A1)))"
    by (simp add: isRefreshTokenExpired_def tokens_A1_def env_at_def t0_def)
  show ?thesis
    using h2 getValidAccessToken_refresh_expired [OF h1 h2, of config0]
    by (simp add: stored_def env_at_def loadTokens_def)
qed

text \<open>
  C9: when the stored pair's refresh token is not expired and its access token is not
  expired (outside the buffer) at the two clock points, \<open>getValidAccessToken\<close> returns the
  stored access token; only the count of clock points changes: the token file and the
  log of token posts are what they were.
\<close>

theorem getValidAccessToken_valid_unchanged:
  assumes "files w = ConfigDir (Some (TokenRecord tokens))"
      and "\<not> isRefreshTokenExpired tokens (date_now e (clock_point w))"
      and "\<not> isAccessTokenExpired tokens (date_now e (Suc (clock_point w)))"
  shows "getValidAccessToken e config w =
           (Inr (access_token tokens), w\<lparr>clock_point := Suc (Suc (clock_point w))\<rparr>)
         \<and> files (snd (getValidAccessToken e config w)) = files w
         \<and> token_posts (snd (getValidAccessToken e config w)) = token_posts w"
  using assms
  by (simp add: getValidAccessToken_def Date_now_def)

theorem getValidAccessToken_valid_unchanged_witness:
  "\<not> isRefreshTokenExpired tokens_A1 (t0 + 1000)
   \<and> \<not> isAccessTokenExpired tokens_A1 (t0 + 1000)
   \<and> getValidAccessToken (env_at (t0 + 1000) None (\<lambda>n. NoResponse [] [])) config0
         (stored tokens_A1) =
       (Inr ''A1'',
        \<lparr>files = ConfigDir (Some (TokenRecord tokens_A1)), clock_point = 2,
         token_posts = [], api_sends = []\<rparr>)"
proof -
  have h1: "files (stored tokens_A1) = ConfigDir (Some (TokenRecord tokens_A1))"
    by (simp add: stored_def)
  have h2: "\<not> isRefreshTokenExpired tokens_A1
              (date_now (env_at (t0 + 1000) None (\<lambda>n. NoResponse [] []))
                 (clock_point (stored tokens_A1)))"
    by (simp add: isRefreshTokenExpired_def tokens_A1_def env_at_def t0_def)
  have h3: "\<not> isAccessTokenExpired tokens_A1
              (date_now (env_at (t0 + 1000) None (\<lambda>n. NoResponse [] []))
                 (Suc (clock_point (stored tokens_A1))))"
    by (simp add: isAccessTokenExpired_def bufferTime_def tokens_A1_def env_at_def t0_def)
  show ?thesis
    using h2 h3 getValidAccessToken_valid_unchanged [OF h1 h2 h3, of config0]
    by (simp add: stored_def env_at_def tokens_A1_def)
qed

text \<open>
  C1: when the stored pair's refresh token is not expired and its access token is expired
  (inside the buffer) at the two clock points, \<open>getValidAccessToken\<close> posts exactly one
  refresh grant, carrying the stored refresh token, to the token URL. When the server
  answers with a pair, the token file is overwritten with that pair (its expiry instants
  computed at the third clock point) and the new access token is returned. When the post
  fails, the token file is removed and the call fails with the refresh-failed error, a
  session-expired error of the taxonomy; nothing more is posted.
\<close>

theorem getValidAccessToken_refresh:
  assumes "files w = ConfigDir (Some (TokenRecord tokens))"
      and "\<not> isRefreshTokenExpired tokens (date_now e (clock_point w))"
      and "isAccessTokenExpired tokens (date_now e (Suc (clock_point w)))"
      and "params = RefreshTokenGrant (clientId config) (clientSecret config) (refresh_token tokens)"
  shows "(token_endpoint e (length (token_posts w)) params = Inr newTokens \<longrightarrow>
            getValidAccessToken e config w =
              (Inr (access_token newTokens),
               w\<lparr>files := ConfigDir (Some (TokenRecord (newTokens\<lparr>
                    access_token_expires_at :=
                      Some (date_now e (Suc (Suc (clock_point w))) + expires_in newTokens * 1000),
                    refresh_token_expires_at :=
                      Some (date_now e (Suc (Suc (clock_point w)))
                              + refresh_expires_in newTokens * 1000)\<rparr>))),
                  clock_point := Suc (Suc (Suc (clock_point w))),
                  token_posts := token_posts w @ [params]\<rparr>))
       \<and> (token_endpoint e (length (token_posts w)) params = Inl m \<longrightarrow>
            getValidAccessToken e config w =
              (Inl RefreshFailed,
               w\<lparr>files := ConfigDir None,
                  clock_point := Suc (Suc (clock_point w)),
                  token_posts := token_posts w @ [params]\<rparr>)
            \<and> category_of RefreshFailed = SessionExpiredError)"
  using assms
  by (simp add: getValidAccessToken_def Date_now_def refreshAccessToken_def saveTokens_def
        clearTokens_def Let_def)

theorem getValidAccessToken_refresh_witness:
  "\<not> isRefreshTokenExpired tokens_A1 (t0 + 14400 * 1000 - 1000)
   \<and> isAccessTokenExpired tokens_A1 (t0 + 14400 * 1000 - 1000)
   \<and> getValidAccessToken (env_at (t0 + 14400 * 1000 - 1000) (Some tokens_A2) (\<lambda>n. NoResponse [] []))
         config0 (stored tokens_A1) =
       (Inr ''A2'',
        \<lparr>files = ConfigDir (Some (TokenRecord (tokens_A2\<lparr>
             access_token_expires_at := Some (t0 + 14400 * 1000 - 1000 + 14400 * 1000),
             refresh_token_expires_at := Some (t0 + 14400 * 1000 - 1000 + 86400 * 1000)\<rparr>))),
         clock_point = 3,
         token_posts = [RefreshTokenGrant ''id'' ''secret'' ''R1''],
         api_sends = []\<rparr>)
   \<and> getValidAccessToken (env_at (t0 + 14400 * 1000 - 1000) None (\<lambda>n. NoResponse [] []))
         config0 (stored tokens_A1) =
       (Inl RefreshFailed,
        \<lparr>files = ConfigDir None, clock_point = 2,
         token_posts = [RefreshTokenGrant ''id'' ''secret'' ''R1''],
         api_sends = []\<rparr>)"
proof -
  let ?now = "t0 + 14400 * 1000 - 1000"
  let ?ok = "env_at ?now (Some tokens_A2) (\<lambda>n. NoResponse [] [])"
  let ?ko = "env_at ?now None (\<lambda>n. NoResponse [] [])"
  let ?params = "RefreshTokenGrant ''id'' ''secret'' ''R1''"
  have h1: "files (stored tokens_A1) = ConfigDir (Some (TokenRecord tokens_A1))"
    by (simp add: stored_def)
  have r: "\<not> isRefreshTokenExpired tokens_A1 ?now"
    by (simp add: isRefreshTokenExpired_def tokens_A1_def t0_def)
  have a: "isAccessTokenExpired tokens_A1 ?now"
    by (simp add: isAccessTokenExpired_def bufferTime_def tokens_A1_def t0_def)
  have h2: "\<not> isRefreshTokenExpired tokens_A1 (date_now ?ok (clock_point (stored tokens_A1)))"
    and h2': "\<not> isRefreshTokenExpired tokens_A1 (date_now ?ko (clock_point (stored tokens_A1)))"
    using r by (simp_all add: env_at_def)
  have h3: "isAccessTokenExpired tokens_A1 (date_now ?ok (Suc (clock_point (stored tokens_A1))))"
    and h3': "isAccessTokenExpired tokens_A1 (date_now ?ko (Suc (clock_point (stored tokens_A1))))"
    using a by (simp_all add: env_at_def)
  have h4: "?params =
      RefreshTokenGrant (clientId config0) (clientSecret config0) (refresh_token tokens_A1)"
    by (simp add: config0_def tokens_A1_def)
  have ok: "token_endpoint ?ok (length (token_posts (stored tokens_A1))) ?params = Inr tokens_A2"
    by (simp add: env_at_def)
  have ko: "token_endpoint ?ko (length (token_posts (stored tokens_A1))) ?params =
              Inl ''Request failed with status code 400''"
    by (simp add: env_at_def)
  show ?thesis
    using r a ok ko
      getValidAccessToken_refresh [OF h1 h2 h3 h4, of tokens_A2]
      getValidAccessToken_refresh [OF h1 h2' h3' h4, of _ "''Request failed with status code 400''"]
    by (simp add: stored_def env_at_def tokens_A2_def)
qed

section \<open>Properties of the callback handler\<close>

text \<open>
  C7: for a request to the callback path whose \<open>state\<close> parameter is not the state
  generated for the pending login attempt, the handler answers 400, closes the listener
  and rejects the promise with an authorization-exchange error (the invalid-code-or-state
  error, or the error reported by the authorization server when the request carries
  one); the state of the process is unchanged, so nothing is posted to the token URL.
\<close>

theorem callback_state_mismatch:
  assumes "pathname u = ''/callback''"
      and "param_state u \<noteq> Some (generated_state l)"
      and "promise l = None"
      and "err = (if truthy (param_error u)
                  then AuthorizationDenied
                         (if truthy (param_error_description u)
                          then case_option [] id (param_error_description u)
                          else case_option [] id (param_error u))
                  else InvalidCodeOrState)"
  shows "callback_handler e config (Some u) l w =
           (400, l\<lparr>promise := Some (Inl err), listening := False\<rparr>, w)
         \<and> category_of err = AuthExchangeError
         \<and> token_posts (snd (snd (callback_handler e config (Some u) l w))) = token_posts w"
  using assms
  by (simp add: callback_handler_def settle_def server_close_def)

theorem callback_state_mismatch_witness:
  "param_state \<lparr>pathname = ''/callback'', param_code = Some ''c0de'', param_state = Some ''forged'',
                 param_error = None, param_error_description = None\<rparr>
     \<noteq> Some (generated_state (startCallbackServer ''k3v9x2''))
   \<and> callback_handler (env_at t0 (Some tokens_A2) (\<lambda>n. NoResponse [] [])) config0
        (Some \<lparr>pathname = ''/callback'', param_code = Some ''c0de'', param_state = Some ''forged'',
               param_error = None, param_error_description = None\<rparr>)
        (startCallbackServer ''k3v9x2'') (stored tokens_A1) =
       (400,
        \<lparr>generated_state = ''k3v9x2'', promise = Some (Inl InvalidCodeOrState), listening = False\<rparr>,
        stored tokens_A1)"
proof -
  let ?u = "\<lparr>pathname = ''/callback'', param_code = Some ''c0de'', param_state = Some ''forged'',
             param_error = None, param_error_description = None\<rparr>"
  let ?l = "startCallbackServer ''k3v9x2''"
  have h1: "pathname ?u = ''/callback''" by simp
  have h2: "param_state ?u \<noteq> Some (generated_state ?l)"
    by (simp add: startCallbackServer_def)
  have h3: "promise ?l = None" by (simp add: startCallbackServer_def)
  have h4: "InvalidCodeOrState =
      (if truthy (param_error ?u)
       then AuthorizationDenied
              (if truthy (param_error_description ?u)
               then case_option [] id (param_error_description ?u)
               else case_option [] id (param_error ?u))
       else InvalidCodeOrState)"
    by simp
  show ?thesis
    using h2
      callback_state_mismatch [OF h1 h2 h3 h4,
        of "env_at t0 (Some tokens_A2) (\<lambda>n. NoResponse [] [])" config0 "stored tokens_A1"]
    by (simp add: startCallbackServer_def)
qed

section \<open>Properties of the request pipeline\<close>

subsection \<open>Auxiliary facts\<close>

lemma getValidAccessToken_api_sends:
  "api_sends (snd (getValidAccessToken e c w)) = api_sends w"
  by (simp add: getValidAccessToken_def loadTokens_def getTokenFilePath_def Date_now_def
        clearTokens_def refreshAccessToken_def saveTokens_def Let_def
      split: prod.splits option.splits sum.splits fs.splits file_content.splits)

lemma getValidAccessToken_api_sends':
  "getValidAccessToken e c w = (r, w1) \<Longrightarrow> api_sends w1 = api_sends w"
  using getValidAccessToken_api_sends [of e c w] by simp

lemma getValidAccessToken_not_axios:
  "getValidAccessToken e c w = (Inl err, w1) \<Longrightarrow>
     err = NotAuthenticated \<or> err = SessionExpired \<or> err = RefreshFailed"
  by (auto simp add: getValidAccessToken_def split: prod.splits option.splits if_splits sum.splits)



lemma response_rejected_plain:
  "err = NotAuthenticated \<or> err = SessionExpired \<or> err = RefreshFailed \<or> err = OAuthConfigMissing \<Longrightarrow>
   response_rejected e oc err w = (Inl err, w)"
  by (auto simp add: response_rejected.simps)

lemma dispatch_world:
  "snd (dispatch e cfg w) = w\<lparr>api_sends := api_sends w @ [cfg]\<rparr>"
  by (auto simp add: dispatch_def Let_def split: dispatch_result.splits if_splits)

lemma dispatch_error:
  "dispatch e cfg w = (Inl err, w1) \<Longrightarrow> err = settle_error cfg (erp_api e (length (api_sends w)) cfg)"
  by (auto simp add: dispatch_def Let_def split: dispatch_result.splits if_splits)

lemma response_rejected_retried:
  "retry_of err \<Longrightarrow> response_rejected e oc err w = (Inl err, w)"
  by (cases err) (auto simp add: response_rejected.simps split: option.splits prod.splits)

lemma retry_of_settle_error [simp]: "retry_of (settle_error cfg r) = retry cfg"
  by (simp add: settle_error_def split: dispatch_result.splits)

lemma request_no_config: "request e None cfg w = (Inl OAuthConfigMissing, w)"
  by (simp add: request.simps response_rejected.simps)

lemma request_unfold:
  "request e (Some c) cfg w =
     (case getValidAccessToken e c w of
        (Inl err, w1) \<Rightarrow> (Inl err, w1)
      | (Inr accessToken, w1) \<Rightarrow>
          (case dispatch e (cfg\<lparr>authorization := Some (''Bearer '' @ accessToken)\<rparr>) w1 of
             (Inr response, w2) \<Rightarrow> (Inr response, w2)
           | (Inl err, w2) \<Rightarrow> response_rejected e (Some c) err w2))"
  by (auto simp add: request.simps response_rejected_plain
        split: prod.splits sum.splits dest!: getValidAccessToken_not_axios)

lemma request_retried:
  assumes "retry cfg"
  shows "request e (Some c) cfg w =
     (case getValidAccessToken e c w of
        (Inl err, w1) \<Rightarrow> (Inl err, w1)
      | (Inr accessToken, w1) \<Rightarrow>
          dispatch e (cfg\<lparr>authorization := Some (''Bearer '' @ accessToken)\<rparr>) w1)"
proof -
  have "response_rejected e (Some c) err w2 = (Inl err, w2)"
    if "dispatch e (cfg\<lparr>authorization := a\<rparr>) w1 = (Inl err, w2)" for err w1 w2 a
    using dispatch_error [OF that] assms by (simp add: response_rejected_retried)
  then show ?thesis
    unfolding request_unfold
    by (auto split: prod.splits sum.splits)
qed

lemma request_retried_sends:
  assumes "retry cfg"
  shows "length (api_sends (snd (request e oc cfg w))) \<le> Suc (length (api_sends w))"
proof (cases oc)
  case None
  then show ?thesis by (simp add: request_no_config)
next
  case (Some c)
  obtain r w1 where g: "getValidAccessToken e c w = (r, w1)"
    by (cases "getValidAccessToken e c w")
  have s: "api_sends w1 = api_sends w"
    using getValidAccessToken_api_sends [of e c w] g by simp
  show ?thesis
  proof (cases r)
    case (Inl err)
    then show ?thesis using g s Some assms by (simp add: request_retried)
  next
    case (Inr tok)
    then show ?thesis using g s Some assms by (simp add: request_retried dispatch_world)
  qed
qed

lemma response_rejected_sends:
  "length (api_sends (snd (response_rejected e oc err w))) \<le> Suc (length (api_sends w))"
proof -
  have "length (api_sends (snd (request e oc (cfg\<lparr>retry := True, authorization := a\<rparr>) w1)))
          \<le> Suc (length (api_sends w))"
    if "getValidAccessToken e c w = (r, w1)" for cfg a c r w1
    using request_retried_sends [of "cfg\<lparr>retry := True, authorization := a\<rparr>" e oc w1]
      getValidAccessToken_api_sends' [OF that] by simp
  moreover have "length (api_sends w1) \<le> Suc (length (api_sends w))"
    if "getValidAccessToken e c w = (r, w1)" for c r w1
    using getValidAccessToken_api_sends' [OF that] by simp
  ultimately show ?thesis
    by (auto simp add: response_rejected.simps split: error.splits option.splits prod.splits sum.splits)
qed

lemma request_sends:
  "length (api_sends (snd (request e oc cfg w))) \<le> length (api_sends w) + 2"
proof (cases oc)
  case None
  then show ?thesis by (simp add: request_no_config)
next
  case (Some c)
  obtain r w1 where g: "getValidAccessToken e c w = (r, w1)"
    by (cases "getValidAccessToken e c w")
  have s: "api_sends w1 = api_sends w"
    using getValidAccessToken_api_sends [of e c w] g by simp
  show ?thesis
  proof (cases r)
    case (Inl err)
    then show ?thesis using g s Some by (simp add: request_unfold)
  next
    case (Inr tok)
    let ?cfg1 = "cfg\<lparr>authorization := Some (''Bearer '' @ tok)\<rparr>"
    obtain r' w2 where d: "dispatch e ?cfg1 w1 = (r', w2)"
      by (cases "dispatch e ?cfg1 w1")
    have s2: "api_sends w2 = api_sends w @ [?cfg1]"
      using dispatch_world [of e ?cfg1 w1] d s by simp
    show ?thesis
    proof (cases r')
      case (Inl err)
      then show ?thesis
        using g d s2 Some Inr response_rejected_sends [of e "Some c" err w2]
        by (simp add: request_unfold)
    next
      case (Inr resp)
      then show ?thesis
        using g d s2 Some \<open>r = Inr tok\<close> by (simp add: request_unfold)
    qed
  qed
qed


lemma str_includes_set: "str_includes m n \<Longrightarrow> set n \<subseteq> set m"
proof (induction m)
  case Nil
  then show ?case by simp
next
  case (Cons a m)
  from Cons.prems have "prefix n (a # m) \<or> str_includes m n" by simp
  then show ?case
  proof
    assume "prefix n (a # m)"
    then show ?thesis by (rule set_mono_prefix)
  next
    assume "str_includes m n"
    then have "set n \<subseteq> set m" by (rule Cons.IH)
    then show ?thesis by auto
  qed
qed


lemma digit_chars_bound: "c \<in> set (digit_chars n) \<Longrightarrow> (of_char c :: nat) < 58"
proof (induction n rule: digit_chars.induct)
  case (1 n)
  show ?case
  proof (cases "n < 10")
    case True
    with "1.prems" have "c = char_of (48 + n)" by (simp add: digit_chars.simps [of n])
    with True show ?thesis by simp
  next
    case False
    with "1.prems" have "c \<in> set (digit_chars (n div 10)) \<or> c = char_of (48 + n mod 10)"
      by (auto simp add: digit_chars.simps [of n])
    then show ?thesis
    proof
      assume "c \<in> set (digit_chars (n div 10))"
      with False show ?thesis using "1.IH" by blast
    next
      assume "c = char_of (48 + n mod 10)"
      moreover have "n mod 10 < 10" by simp
      ultimately show ?thesis by simp
    qed
  qed
qed

lemma status_message_no_auth_phrase:
  "\<not> str_includes (status_message s) ''Sessao expirada''"
  "\<not> str_includes (status_message s) ''Nao autenticado''"
proof -
  have S: "CHR ''S'' \<notin> set (status_message s)"
    using digit_chars_bound [of "CHR ''S''" s] by (auto simp add: status_message_def)
  have N: "CHR ''N'' \<notin> set (status_message s)"
    using digit_chars_bound [of "CHR ''N''" s] by (auto simp add: status_message_def)
  show "\<not> str_includes (status_message s) ''Sessao expirada''"
    using S str_includes_set [of "status_message s" "''Sessao expirada''"] by auto
  show "\<not> str_includes (status_message s) ''Nao autenticado''"
    using N str_includes_set [of "status_message s" "''Nao autenticado''"] by auto
qed

lemma handleApiError_status:
  "handleApiError (settle_error cfg (Responded s d)) = status_text s d"
  by (simp add: handleApiError_def settle_error_def status_message_no_auth_phrase)

lemma request_retry_401:
  assumes nr: "\<not> retry cfg"
      and g1: "getValidAccessToken e c w = (Inr t1, w1)"
      and c1: "cfg1 = cfg\<lparr>authorization := Some (''Bearer '' @ t1)\<rparr>"
      and a1: "erp_api e (length (api_sends w1)) cfg1 = Responded 401 d1"
      and g2: "getValidAccessToken e c (w1\<lparr>api_sends := api_sends w1 @ [cfg1]\<rparr>) = (Inr t2, w2)"
      and g3: "getValidAccessToken e c w2 = (Inr t3, w3)"
      and c3: "cfg3 = cfg\<lparr>retry := True, authorization := Some (''Bearer '' @ t3)\<rparr>"
  shows "request e (Some c) cfg w = dispatch e cfg3 w3"
    and "api_sends w3 = api_sends w @ [cfg1]"
proof -
  let ?err = "AxiosError cfg1 (Some (401, d1)) ''ERR_BAD_REQUEST'' (status_message 401)"
  let ?w1' = "w1\<lparr>api_sends := api_sends w1 @ [cfg1]\<rparr>"
  have d1: "dispatch e cfg1 w1 = (Inl ?err, ?w1')"
    using a1 by (simp add: dispatch_def settle_error_def Let_def)
  have rr: "response_rejected e (Some c) ?err ?w1' =
            request e (Some c) (cfg1\<lparr>retry := True, authorization := Some (''Bearer '' @ t2)\<rparr>) w2"
    using nr g2 c1 by (simp add: response_rejected.simps)
  have r2: "request e (Some c) (cfg1\<lparr>retry := True, authorization := Some (''Bearer '' @ t2)\<rparr>) w2 =
            dispatch e cfg3 w3"
    using g3 c1 c3 by (simp add: request_retried)
  have "request e (Some c) cfg w = response_rejected e (Some c) ?err ?w1'"
    using g1 d1 c1 by (simp add: request_unfold)
  then show "request e (Some c) cfg w = dispatch e cfg3 w3"
    using rr r2 by simp
  have s1: "api_sends w1 = api_sends w"
    using g1 by (rule getValidAccessToken_api_sends')
  have s2: "api_sends w2 = api_sends ?w1'"
    using g2 by (rule getValidAccessToken_api_sends')
  have s3: "api_sends w3 = api_sends w2"
    using g3 by (rule getValidAccessToken_api_sends')
  show "api_sends w3 = api_sends w @ [cfg1]"
    using s1 s2 s3 by simp
qed

subsection \<open>Retry on 401\<close>

text \<open>
  C2: a request is sent at most twice, so it is retried at most once. When a request not
  yet marked as retried is answered with 401 and the token fetches that follow succeed
  (one in the error handler, one in the request interceptor of the re-issued request),
  the same request is sent once more, marked as retried and with the \<open>Authorization\<close>
  header of the newly fetched token, and the outcome of that second send is the result.
  A second 401 is returned as it is, the 401 error of the HTTP client with its response:
  it is not turned into the session-expired error, \<open>handleApiError\<close> gives it the message
  of the status 401, and the second send leaves the token file and the log of token
  posts as the token fetch before it left them; the log of sends then holds exactly the
  two sends.
\<close>

theorem request_retries_once:
  "length (api_sends (snd (request e oc cfg w))) \<le> length (api_sends w) + 2
   \<and> (\<not> retry cfg
        \<and> getValidAccessToken e c w = (Inr t1, w1)
        \<and> cfg1 = cfg\<lparr>authorization := Some (''Bearer '' @ t1)\<rparr>
        \<and> erp_api e (length (api_sends w1)) cfg1 = Responded 401 d1
        \<and> getValidAccessToken e c (w1\<lparr>api_sends := api_sends w1 @ [cfg1]\<rparr>) = (Inr t2, w2)
        \<and> getValidAccessToken e c w2 = (Inr t3, w3)
        \<and> cfg3 = cfg\<lparr>retry := True, authorization := Some (''Bearer '' @ t3)\<rparr>
      \<longrightarrow> request e (Some c) cfg w = dispatch e cfg3 w3
          \<and> api_sends (snd (request e (Some c) cfg w)) = api_sends w @ [cfg1, cfg3]
          \<and> (erp_api e (length (api_sends w3)) cfg3 = Responded 401 d2 \<longrightarrow>
                request e (Some c) cfg w =
                  (Inl (AxiosError cfg3 (Some (401, d2)) ''ERR_BAD_REQUEST'' (status_message 401)),
                   w3\<lparr>api_sends := api_sends w @ [cfg1, cfg3]\<rparr>)
                \<and> fst (request e (Some c) cfg w) \<noteq> Inl SessionExpired
                \<and> files (snd (request e (Some c) cfg w)) = files w3
                \<and> token_posts (snd (request e (Some c) cfg w)) = token_posts w3
                \<and> handleApiError (AxiosError cfg3 (Some (401, d2)) ''ERR_BAD_REQUEST''
                      (status_message 401)) = status_text 401 d2))"
proof -
  have retried:
    "request e (Some c) cfg w = dispatch e cfg3 w3
     \<and> api_sends (snd (request e (Some c) cfg w)) = api_sends w @ [cfg1, cfg3]
     \<and> (erp_api e (length (api_sends w3)) cfg3 = Responded 401 d2 \<longrightarrow>
           request e (Some c) cfg w =
             (Inl (AxiosError cfg3 (Some (401, d2)) ''ERR_BAD_REQUEST'' (status_message 401)),
              w3\<lparr>api_sends := api_sends w @ [cfg1, cfg3]\<rparr>)
           \<and> fst (request e (Some c) cfg w) \<noteq> Inl SessionExpired
           \<and> files (snd (request e (Some c) cfg w)) = files w3
           \<and> token_posts (snd (request e (Some c) cfg w)) = token_posts w3
           \<and> handleApiError (AxiosError cfg3 (Some (401, d2)) ''ERR_BAD_REQUEST''
                 (status_message 401)) = status_text 401 d2)"
    if nr: "\<not> retry cfg"
      and g1: "getValidAccessToken e c w = (Inr t1, w1)"
      and c1: "cfg1 = cfg\<lparr>authorization := Some (''Bearer '' @ t1)\<rparr>"
      and a1: "erp_api e (length (api_sends w1)) cfg1 = Responded 401 d1"
      and g2: "getValidAccessToken e c (w1\<lparr>api_sends := api_sends w1 @ [cfg1]\<rparr>) = (Inr t2, w2)"
      and g3: "getValidAccessToken e c w2 = (Inr t3, w3)"
      and c3: "cfg3 = cfg\<lparr>retry := True, authorization := Some (''Bearer '' @ t3)\<rparr>"
  proof (intro conjI impI)
    note again = request_retry_401 [OF nr g1 c1 a1 g2 g3 c3]
    show "request e (Some c) cfg w = dispatch e cfg3 w3"
      by (rule again(1))
    show "api_sends (snd (request e (Some c) cfg w)) = api_sends w @ [cfg1, cfg3]"
      using again by (simp add: dispatch_world)
    have second:
      "request e (Some c) cfg w =
         (Inl (AxiosError cfg3 (Some (401, d2)) ''ERR_BAD_REQUEST'' (status_message 401)),
          w3\<lparr>api_sends := api_sends w @ [cfg1, cfg3]\<rparr>)"
      if "erp_api e (length (api_sends w3)) cfg3 = Responded 401 d2"
      using again that by (simp add: dispatch_def settle_error_def Let_def)
    show "request e (Some c) cfg w =
            (Inl (AxiosError cfg3 (Some (401, d2)) ''ERR_BAD_REQUEST'' (status_message 401)),
             w3\<lparr>api_sends := api_sends w @ [cfg1, cfg3]\<rparr>)"
      if "erp_api e (length (api_sends w3)) cfg3 = Responded 401 d2"
      using that by (rule second)
    show "fst (request e (Some c) cfg w) \<noteq> Inl SessionExpired"
      if "erp_api e (length (api_sends w3)) cfg3 = Responded 401 d2"
      using second [OF that] by simp
    show "files (snd (request e (Some c) cfg w)) = files w3"
      if "erp_api e (length (api_sends w3)) cfg3 = Responded 401 d2"
      using second [OF that] by simp
    show "token_posts (snd (request e (Some c) cfg w)) = token_posts w3"
      if "erp_api e (length (api_sends w3)) cfg3 = Responded 401 d2"
      using second [OF that] by simp
    show "handleApiError (AxiosError cfg3 (Some (401, d2)) ''ERR_BAD_REQUEST''
            (status_message 401)) = status_text 401 d2"
      using handleApiError_status [of cfg3 401 d2] by (simp add: settle_error_def)
  qed
  show ?thesis
    using request_sends [of e oc cfg w] retried by blast
qed

lemma getValidAccessToken_A1:
  "getValidAccessToken (env_at (t0 + 1000) None api) config0
     \<lparr>files = ConfigDir (Some (TokenRecord tokens_A1)), clock_point = n,
      token_posts = [], api_sends = xs\<rparr> =
   (Inr ''A1'', \<lparr>files = ConfigDir (Some (TokenRecord tokens_A1)), clock_point = Suc (Suc n),
      token_posts = [], api_sends = xs\<rparr>)"
  by (simp add: getValidAccessToken_def Date_now_def env_at_def isRefreshTokenExpired_def
        isAccessTokenExpired_def bufferTime_def tokens_A1_def t0_def)

theorem request_retries_once_witness:
  "request (env_at (t0 + 1000) None always_401) (Some config0) get_products (stored tokens_A1) =
     (Inl (AxiosError (get_products\<lparr>retry := True, authorization := Some ''Bearer A1''\<rparr>)
             (Some (401, None)) ''ERR_BAD_REQUEST'' (status_message 401)),
      \<lparr>files = ConfigDir (Some (TokenRecord tokens_A1)), clock_point = 6, token_posts = [],
       api_sends = [get_products\<lparr>authorization := Some ''Bearer A1''\<rparr>,
                    get_products\<lparr>retry := True, authorization := Some ''Bearer A1''\<rparr>]\<rparr>)"
proof -
  let ?e = "env_at (t0 + 1000) None always_401"
  let ?cfg1 = "get_products\<lparr>authorization := Some ''Bearer A1''\<rparr>"
  let ?cfg3 = "get_products\<lparr>retry := True, authorization := Some ''Bearer A1''\<rparr>"
  let ?w = "\<lambda>n xs. \<lparr>files = ConfigDir (Some (TokenRecord tokens_A1)), clock_point = n,
      token_posts = [], api_sends = xs\<rparr>"
  have h: "\<not> retry get_products
        \<and> getValidAccessToken ?e config0 (stored tokens_A1) = (Inr ''A1'', ?w 2 [])
        \<and> ?cfg1 = get_products\<lparr>authorization := Some (''Bearer '' @ ''A1'')\<rparr>
        \<and> erp_api ?e (length (api_sends (?w 2 []))) ?cfg1 = Responded 401 None
        \<and> getValidAccessToken ?e config0 ((?w 2 [])\<lparr>api_sends := api_sends (?w 2 []) @ [?cfg1]\<rparr>)
            = (Inr ''A1'', ?w 4 [?cfg1])
        \<and> getValidAccessToken ?e config0 (?w 4 [?cfg1]) = (Inr ''A1'', ?w 6 [?cfg1])
        \<and> ?cfg3 = get_products\<lparr>retry := True, authorization := Some (''Bearer '' @ ''A1'')\<rparr>"
    by (simp add: getValidAccessToken_A1 stored_def get_products_def numeral_eq_Suc)
       (simp add: env_at_def always_401_def)
  have a2: "erp_api ?e (length (api_sends (?w 6 [?cfg1]))) ?cfg3 = Responded 401 None"
    by (simp add: env_at_def always_401_def)
  have "request ?e (Some config0) get_products (stored tokens_A1) =
          (Inl (AxiosError ?cfg3 (Some (401, None)) ''ERR_BAD_REQUEST'' (status_message 401)),
           (?w 6 [?cfg1])\<lparr>api_sends := api_sends (stored tokens_A1) @ [?cfg1, ?cfg3]\<rparr>)"
    using h a2
      request_retries_once [of ?e "Some config0" get_products "stored tokens_A1" config0 "''A1''"
        "?w 2 []" ?cfg1 None "''A1''" "?w 4 [?cfg1]" "''A1''" "?w 6 [?cfg1]" ?cfg3 None]
    by blast
  then show ?thesis
    by (simp add: stored_def)
qed

text \<open>
  C2 as first stated, that a second 401 is surfaced as the session-expired error, does
  not hold: with a valid stored pair and a server that answers 401 to both sends, the
  result is the 401 error of the HTTP client, not the session-expired error the handler
  raises when a token fetch fails; the token file is kept, the error is a remote-API
  error of the taxonomy, and \<open>handleApiError\<close> gives the two errors different messages.
\<close>

theorem request_second_401_counterexample:
  "request (env_at (t0 + 1000) None always_401) (Some config0) get_products (stored tokens_A1) =
     (Inl (AxiosError (get_products\<lparr>retry := True, authorization := Some ''Bearer A1''\<rparr>)
             (Some (401, None)) ''ERR_BAD_REQUEST'' (status_message 401)),
      \<lparr>files = ConfigDir (Some (TokenRecord tokens_A1)), clock_point = 6, token_posts = [],
       api_sends = [get_products\<lparr>authorization := Some ''Bearer A1''\<rparr>,
                    get_products\<lparr>retry := True, authorization := Some ''Bearer A1''\<rparr>]\<rparr>)
   \<and> fst (request (env_at (t0 + 1000) None always_401) (Some config0) get_products
            (stored tokens_A1)) \<noteq> Inl SessionExpired
   \<and> category_of (AxiosError (get_products\<lparr>retry := True, authorization := Some ''Bearer A1''\<rparr>)
         (Some (401, None)) ''ERR_BAD_REQUEST'' (status_message 401)) \<noteq> SessionExpiredError
   \<and> handleApiError (AxiosError (get_products\<lparr>retry := True, authorization := Some ''Bearer A1''\<rparr>)
         (Some (401, None)) ''ERR_BAD_REQUEST'' (status_message 401)) =
       cross @ ''Nao autorizado. Execute 'tiny-mcp-auth' para autenticar.''
   \<and> handleApiError SessionExpired =
       cross @ ''Sessao expirada. Execute 'tiny-mcp-auth' para fazer login novamente.''"
proof -
  let ?e = "env_at (t0 + 1000) None always_401"
  let ?cfg1 = "get_products\<lparr>authorization := Some ''Bearer A1''\<rparr>"
  let ?cfg3 = "get_products\<lparr>retry := True, authorization := Some ''Bearer A1''\<rparr>"
  let ?w = "\<lambda>n xs. \<lparr>files = ConfigDir (Some (TokenRecord tokens_A1)), clock_point = n,
      token_posts = [], api_sends = xs\<rparr>"
  have nr: "\<not> retry get_products"
    by (simp add: get_products_def)
  have g1: "getValidAccessToken ?e config0 (stored tokens_A1) = (Inr ''A1'', ?w 2 [])"
    by (simp add: getValidAccessToken_A1 stored_def numeral_eq_Suc)
  have c1: "?cfg1 = get_products\<lparr>authorization := Some (''Bearer '' @ ''A1'')\<rparr>"
    by simp
  have a1: "erp_api ?e (length (api_sends (?w 2 []))) ?cfg1 = Responded 401 None"
    by (simp add: env_at_def always_401_def)
  have g2: "getValidAccessToken ?e config0 ((?w 2 [])\<lparr>api_sends := api_sends (?w 2 []) @ [?cfg1]\<rparr>)
              = (Inr ''A1'', ?w 4 [?cfg1])"
    by (simp add: getValidAccessToken_A1 numeral_eq_Suc)
  have g3: "getValidAccessToken ?e config0 (?w 4 [?cfg1]) = (Inr ''A1'', ?w 6 [?cfg1])"
    by (simp add: getValidAccessToken_A1 numeral_eq_Suc)
  have c3: "?cfg3 = get_products\<lparr>retry := True, authorization := Some (''Bearer '' @ ''A1'')\<rparr>"
    by simp
  have "request ?e (Some config0) get_products (stored tokens_A1) = dispatch ?e ?cfg3 (?w 6 [?cfg1])"
    by (rule request_retry_401 (1) [OF nr g1 c1 a1 g2 g3 c3])
  then have run: "request ?e (Some config0) get_products (stored tokens_A1) =
      (Inl (AxiosError ?cfg3 (Some (401, None)) ''ERR_BAD_REQUEST'' (status_message 401)),
       ?w 6 [?cfg1, ?cfg3])"
    by (simp add: dispatch_def settle_error_def Let_def env_at_def always_401_def)
  have render: "handleApiError (AxiosError ?cfg3 (Some (401, None)) ''ERR_BAD_REQUEST''
                  (status_message 401)) =
                cross @ ''Nao autorizado. Execute 'tiny-mcp-auth' para autenticar.''"
    using handleApiError_status [of ?cfg3 401 None]
    by (simp add: settle_error_def status_text_def)
  have expired: "handleApiError SessionExpired =
                   cross @ ''Sessao expirada. Execute 'tiny-mcp-auth' para fazer login novamente.''"
    by (simp add: handleApiError_def)
  show ?thesis
    using run render expired by simp
qed

subsection \<open>Other failures\<close>




subsection \<open>\<open>isAuthenticated\<close>\<close>

lemma isAuthenticated_stored:
  "files w = ConfigDir (Some (TokenRecord tokens)) \<Longrightarrow> isAuthenticated w = (True, w)"
  by (simp add: isAuthenticated_def)

lemma request_token_error:
  "getValidAccessToken e c w = (Inl err, w1) \<Longrightarrow> request e (Some c) cfg w = (Inl err, w1)"
  by (simp add: request_unfold)

text \<open>
  C10, as amended: \<open>isAuthenticated\<close> is true exactly when \<open>load\<close> returns a pair,
  whatever its expiry: for a stored pair whose access and refresh tokens are both
  expired it returns true, although the next authenticated call fails with the
  session-expired error. That call removes the token file, so afterwards
  \<open>isAuthenticated\<close> returns false and a further call fails with the not-authenticated
  error and leaves the state as it is.
\<close>

theorem isAuthenticated_ignores_expiry:
  "fst (isAuthenticated w) = (fst (loadTokens w) \<noteq> None)
   \<and> (files w = ConfigDir (Some (TokenRecord tokens))
        \<and> isRefreshTokenExpired tokens (date_now e (clock_point w))
        \<and> isAccessTokenExpired tokens (date_now e (clock_point w))
      \<longrightarrow> isAuthenticated w = (True, w)
          \<and> request e (Some c) cfg w =
              (Inl SessionExpired, w\<lparr>files := ConfigDir None, clock_point := Suc (clock_point w)\<rparr>)
          \<and> category_of SessionExpired = SessionExpiredError
          \<and> fst (isAuthenticated (snd (request e (Some c) cfg w))) = False
          \<and> request e (Some c) cfg' (snd (request e (Some c) cfg w)) =
              (Inl NotAuthenticated, snd (request e (Some c) cfg w))
          \<and> category_of NotAuthenticated = NotAuthenticatedError)"
proof (intro conjI impI; (elim conjE)?)
  show "fst (isAuthenticated w) = (fst (loadTokens w) \<noteq> None)"
    by (simp add: isAuthenticated_def split: prod.splits)
next
  assume f: "files w = ConfigDir (Some (TokenRecord tokens))"
  then show "isAuthenticated w = (True, w)" by (rule isAuthenticated_stored)
next
  assume f: "files w = ConfigDir (Some (TokenRecord tokens))"
     and x: "isRefreshTokenExpired tokens (date_now e (clock_point w))"
  let ?w1 = "w\<lparr>files := ConfigDir None, clock_point := Suc (clock_point w)\<rparr>"
  have g: "getValidAccessToken e c w = (Inl SessionExpired, ?w1)"
    using f x by (simp add: getValidAccessToken_def Date_now_def clearTokens_def)
  then show r1: "request e (Some c) cfg w = (Inl SessionExpired, ?w1)"
    by (rule request_token_error)
  show "fst (isAuthenticated (snd (request e (Some c) cfg w))) = False"
    unfolding r1 by (simp add: isAuthenticated_def loadTokens_def)
  have "getValidAccessToken e c ?w1 = (Inl NotAuthenticated, ?w1)"
    by (simp add: getValidAccessToken_def loadTokens_def)
  then have "request e (Some c) cfg' ?w1 = (Inl NotAuthenticated, ?w1)"
    by (rule request_token_error)
  then show "request e (Some c) cfg' (snd (request e (Some c) cfg w)) =
              (Inl NotAuthenticated, snd (request e (Some c) cfg w))"
    unfolding r1 by simp
qed simp_all

theorem isAuthenticated_ignores_expiry_witness:
  "isRefreshTokenExpired tokens_A1 (t0 + 86400 * 1000)
   \<and> isAccessTokenExpired tokens_A1 (t0 + 86400 * 1000)
   \<and> isAuthenticated (stored tokens_A1) = (True, stored tokens_A1)
   \<and> request (env_at (t0 + 86400 * 1000) None always_401) (Some config0) get_products
         (stored tokens_A1) =
       (Inl SessionExpired,
        \<lparr>files = ConfigDir None, clock_point = 1, token_posts = [], api_sends = []\<rparr>)"
proof -
  let ?e = "env_at (t0 + 86400 * 1000) None always_401"
  have r: "isRefreshTokenExpired tokens_A1 (t0 + 86400 * 1000)"
    by (simp add: isRefreshTokenExpired_def tokens_A1_def t0_def)
  have a: "isAccessTokenExpired tokens_A1 (t0 + 86400 * 1000)"
    by (simp add: isAccessTokenExpired_def bufferTime_def tokens_A1_def t0_def)
  have h: "files (stored tokens_A1) = ConfigDir (Some (TokenRecord tokens_A1))
        \<and> isRefreshTokenExpired tokens_A1 (date_now ?e (clock_point (stored tokens_A1)))
        \<and> isAccessTokenExpired tokens_A1 (date_now ?e (clock_point (stored tokens_A1)))"
    using r a by (simp add: stored_def env_at_def)
  have "isAuthenticated (stored tokens_A1) = (True, stored tokens_A1)
        \<and> request ?e (Some config0) get_products (stored tokens_A1) =
            (Inl SessionExpired,
             (stored tokens_A1)\<lparr>files := ConfigDir None,
                clock_point := Suc (clock_point (stored tokens_A1))\<rparr>)"
    using h isAuthenticated_ignores_expiry [of "stored tokens_A1" tokens_A1 ?e config0 get_products
        get_products]
    by blast
  then show ?thesis
    using r a by (simp add: stored_def)
qed

text \<open>
  C10 as first stated, that every later authenticated call fails with a
  session-expired error, does not hold: with both tokens of the stored pair expired, the
  second call after \<open>isAuthenticated\<close> returned true fails with the not-authenticated
  error.
\<close>

theorem isAuthenticated_later_calls_counterexample:
  "isRefreshTokenExpired tokens_A1 (t0 + 86400 * 1000)
   \<and> isAccessTokenExpired tokens_A1 (t0 + 86400 * 1000)
   \<and> fst (isAuthenticated (stored tokens_A1))
   \<and> fst (request (env_at (t0 + 86400 * 1000) None always_401) (Some config0) get_products
            (snd (request (env_at (t0 + 86400 * 1000) None always_401) (Some config0)
                    get_products (stored tokens_A1)))) = Inl NotAuthenticated
   \<and> category_of NotAuthenticated \<noteq> SessionExpiredError"
proof -
  let ?e = "env_at (t0 + 86400 * 1000) None always_401"
  let ?w1 = "\<lparr>files = ConfigDir None, clock_point = 1, token_posts = [], api_sends = []\<rparr>"
  have r: "isRefreshTokenExpired tokens_A1 (t0 + 86400 * 1000)"
    by (simp add: isRefreshTokenExpired_def tokens_A1_def t0_def)
  have a: "isAccessTokenExpired tokens_A1 (t0 + 86400 * 1000)"
    by (simp add: isAccessTokenExpired_def bufferTime_def tokens_A1_def t0_def)
  have "getValidAccessToken ?e config0 (stored tokens_A1) = (Inl SessionExpired, ?w1)"
    using r by (simp add: getValidAccessToken_def Date_now_def clearTokens_def stored_def
        env_at_def)
  then have r1: "request ?e (Some config0) get_products (stored tokens_A1) =
                   (Inl SessionExpired, ?w1)"
    by (rule request_token_error)
  have "getValidAccessToken ?e config0 ?w1 = (Inl NotAuthenticated, ?w1)"
    by (simp add: getValidAccessToken_def loadTokens_def)
  then have r2: "request ?e (Some config0) get_products ?w1 = (Inl NotAuthenticated, ?w1)"
    by (rule request_token_error)
  show ?thesis
    using r a r1 r2 by (simp add: isAuthenticated_def stored_def)
qed

end
